theory Spec2Isabelle
  imports Complex_Main "HOL-Library.Sublist" "HOL-Library.Product_Lexorder"
begin

section \<open>Strings\<close>

text \<open>
  Python strings are modelled as \<open>string\<close> (lists of 8-bit characters), so the
  development covers ASCII text. On ASCII, \<^verbatim>\<open>str.lower()\<close> maps \<open>A\<close>..\<open>Z\<close> to
  \<open>a\<close>..\<open>z\<close> and leaves every other character alone.
\<close>

definition lower_char :: "char \<Rightarrow> char" where
  "lower_char c =
     (case map_of (zip ''ABCDEFGHIJKLMNOPQRSTUVWXYZ'' ''abcdefghijklmnopqrstuvwxyz'') c of
        None \<Rightarrow> c
      | Some l \<Rightarrow> l)"

definition lower :: "string \<Rightarrow> string" where
  "lower s = map lower_char s"

text \<open>The test \<^verbatim>\<open>sub in s\<close> on strings: \<open>sub\<close> occurs in \<open>s\<close> as a contiguous block.\<close>

fun str_contains :: "string \<Rightarrow> string \<Rightarrow> bool" where
  "str_contains sub [] = (sub = [])"
| "str_contains sub (c # cs) = (prefix sub (c # cs) \<or> str_contains sub cs)"

section \<open>The role catalog\<close>

text \<open>
  A course and a role are JSON objects. The fields below are the keys the modelled
  functions read. Keys that the loader checks (\<^verbatim>\<open>role\<close>, \<^verbatim>\<open>category\<close>,
  \<^verbatim>\<open>required_skills\<close>, \<^verbatim>\<open>preferred_skills\<close>, \<^verbatim>\<open>average_salary\<close>,
  \<^verbatim>\<open>growth_trend\<close>, \<^verbatim>\<open>recommended_courses\<close>) are always present; the others
  are optional and the code reads them with \<^verbatim>\<open>.get(key, default)\<close>.
\<close>

record course =
  title :: "string option"
  platform :: string
  duration :: string
  rating :: rat

record role_data =
  role :: string
  category :: string
  required_skills :: "string list"
  preferred_skills :: "string list"
  average_salary :: "(string \<times> int) list"
  demand_index :: "int list option"
  recommended_courses :: "course list"
  experience_level :: "string option"
  career_paths :: "string list"

text \<open>\<^verbatim>\<open>create_default_career_data\<close>: the built-in catalog of two roles.\<close>

definition default_software_engineer :: role_data where
  "default_software_engineer =
     \<lparr>role = ''Software Engineer'', category = ''Technology'',
      required_skills = [''Python'', ''JavaScript'', ''Git'', ''SQL''],
      preferred_skills = [''React'', ''Node.js'', ''Docker'', ''AWS''],
      average_salary = [(''entry'', 75000), (''mid'', 110000), (''senior'', 150000), (''lead'', 200000)],
      demand_index = Some [85, 90, 95, 100, 105],
      recommended_courses =
        [\<lparr>title = Some ''Complete Python Bootcamp'', platform = ''Udemy'',
          duration = ''40 hours'', rating = 46 / 10\<rparr>],
      experience_level = Some ''Entry to Senior'',
      career_paths = [''Senior Engineer'', ''Tech Lead'', ''Engineering Manager'']\<rparr>"

definition default_data_scientist :: role_data where
  "default_data_scientist =
     \<lparr>role = ''Data Scientist'', category = ''Data & Analytics'',
      required_skills = [''Python'', ''Statistics'', ''Machine Learning'', ''SQL''],
      preferred_skills = [''R'', ''TensorFlow'', ''Tableau'', ''AWS''],
      average_salary = [(''entry'', 80000), (''mid'', 120000), (''senior'', 160000), (''lead'', 220000)],
      demand_index = Some [80, 85, 92, 98, 103],
      recommended_courses =
        [\<lparr>title = Some ''Data Science Specialization'', platform = ''Coursera'',
          duration = ''60 hours'', rating = 45 / 10\<rparr>],
      experience_level = Some ''Entry to Senior'',
      career_paths = [''Senior Data Scientist'', ''ML Engineer'', ''Data Science Manager'']\<rparr>"

definition create_default_career_data :: "role_data list" where
  "create_default_career_data = [default_software_engineer, default_data_scientist]"

section \<open>Course finder\<close>

text \<open>
  \<^verbatim>\<open>find_courses(skill)\<close>: two nested loops append every course whose lower-cased
  title contains the lower-cased skill; the result is the slice \<^verbatim>\<open>courses[:3]\<close>.
  A course without a title counts as titled \<^verbatim>\<open>''\<close>.
\<close>

definition course_title :: "course \<Rightarrow> string" where
  "course_title c = (case title c of None \<Rightarrow> [] | Some t \<Rightarrow> t)"

definition course_matches :: "string \<Rightarrow> course \<Rightarrow> bool" where
  "course_matches skill c = str_contains (lower skill) (lower (course_title c))"

definition find_courses_in_role :: "string \<Rightarrow> course list \<Rightarrow> role_data \<Rightarrow> course list" where
  "find_courses_in_role skill courses r =
     foldl (\<lambda>acc c. if course_matches skill c then acc @ [c] else acc)
       courses (recommended_courses r)"

definition find_courses :: "role_data list \<Rightarrow> string \<Rightarrow> course list" where
  "find_courses data skill = take 3 (foldl (find_courses_in_role skill) [] data)"

section \<open>Floating-point arithmetic of the match percentage\<close>

text \<open>
  The percentage is \<^verbatim>\<open>int((len(matched_skills) / total_skills) * 100)\<close>. Python's
  \<^verbatim>\<open>/\<close> on two integers returns the binary64 number nearest to the exact
  quotient, \<^verbatim>\<open>*\<close> rounds the exact product to the nearest binary64 number, both
  with ties to the even significand, and \<^verbatim>\<open>int\<close> truncates towards zero.
  A binary64 number is modelled by the rational it denotes. \<open>float_round\<close> rounds a
  rational to 53 significant bits; exponent range is not modelled, which is exact
  here because every value involved lies between \<open>2\<^sup>-\<^sup>6\<^sup>4\<close> and \<open>100\<close>.
\<close>

definition pow2 :: "int \<Rightarrow> rat" where
  "pow2 k = (if 0 \<le> k then 2 ^ nat k else 1 / 2 ^ nat (- k))"

function bit_length :: "int \<Rightarrow> nat" where
  "bit_length n = (if n \<le> 0 then 0 else Suc (bit_length (n div 2)))"
  by pat_completeness auto
termination
proof (relation "measure nat")
  show "wf (measure nat)" by simp
next
  fix n :: int
  assume pos: "\<not> n \<le> 0"
  then have "n div 2 < n" by linarith
  with pos show "(n div 2, n) \<in> measure nat" by simp
qed

declare bit_length.simps [simp del]

definition round_half_even :: "rat \<Rightarrow> int" where
  "round_half_even x =
     (let f = \<lfloor>x\<rfloor>; d = x - of_int f
      in if d < 1 / 2 then f else if 1 / 2 < d then f + 1 else if even f then f else f + 1)"

text \<open>For \<open>x > 0\<close>, \<open>binade x\<close> is the exponent \<open>e\<close> with \<open>2\<^sup>e \<le> x < 2\<^sup>e\<^sup>+\<^sup>1\<close>.\<close>

definition binade :: "rat \<Rightarrow> int" where
  "binade x =
     (let (p, q) = quotient_of x;
          k = int (bit_length p) - int (bit_length q)
      in if pow2 k \<le> x then k else k - 1)"

definition float_round :: "rat \<Rightarrow> rat" where
  "float_round x =
     (if x = 0 then 0
      else let a = \<bar>x\<bar>; e = binade a
           in sgn x * of_int (round_half_even (a * pow2 (52 - e))) * pow2 (e - 52))"

definition py_true_div :: "nat \<Rightarrow> nat \<Rightarrow> rat" where
  "py_true_div a b = float_round (of_nat a / of_nat b)"

definition py_float_mul :: "rat \<Rightarrow> rat \<Rightarrow> rat" where
  "py_float_mul x y = float_round (x * y)"

definition py_int :: "rat \<Rightarrow> int" where
  "py_int x = (if 0 \<le> x then \<lfloor>x\<rfloor> else \<lceil>x\<rceil>)"

definition compute_match_percentage :: "nat \<Rightarrow> nat \<Rightarrow> int" where
  "compute_match_percentage matched total_skills =
     (if total_skills \<noteq> 0
      then py_int (py_float_mul (py_true_div matched total_skills) 100)
      else 0)"

section \<open>Match scorer\<close>

datatype priority = High | Medium

record plan_entry =
  skill :: string
  priority :: priority
  resources :: "course list"

record match_result =
  res_role :: string
  match_percentage :: int
  matched_skills :: "string list"
  missing_required :: "string list"
  missing_preferred :: "string list"
  improvement_plan :: "plan_entry list"
  salary_range :: "(string \<times> int) list"
  res_career_paths :: "string list"

text \<open>
  The 404 answer of \<^verbatim>\<open>analyze_resume\<close>: the message, the names of all roles of the
  catalog, and the suggestion.
\<close>

datatype error = RoleNotFound string "string list" string

text \<open>
  Lines 415-419: the first role whose lower-cased name equals the lower-cased target.
  Every role has a name, so a role that was found is a non-empty dictionary and passes
  the test \<^verbatim>\<open>if not role_data\<close>.
\<close>

fun find_role :: "role_data list \<Rightarrow> string \<Rightarrow> role_data option" where
  "find_role [] target_role = None"
| "find_role (r # rs) target_role =
     (if lower (role r) = lower target_role then Some r else find_role rs target_role)"

text \<open>The two loops that append to \<^verbatim>\<open>improvement_plan\<close> (lines 443-456).\<close>

definition plan_loop :: "role_data list \<Rightarrow> priority \<Rightarrow> plan_entry list \<Rightarrow> string list \<Rightarrow> plan_entry list" where
  "plan_loop data p plan skills =
     foldl (\<lambda>acc s. acc @ [\<lparr>skill = s, priority = p, resources = find_courses data s\<rparr>])
       plan skills"

text \<open>Lines 430-467: the comparison of the resume's skills with the role that was found.\<close>

definition compare_skills :: "role_data list \<Rightarrow> string list \<Rightarrow> role_data \<Rightarrow> match_result" where
  "compare_skills data resume_skills rd =
     (let required = required_skills rd;
          preferred = preferred_skills rd;
          missing_req = filter (\<lambda>s. s \<notin> set resume_skills) required;
          missing_pref = filter (\<lambda>s. s \<notin> set resume_skills) preferred;
          matched = filter (\<lambda>s. s \<in> set resume_skills) (required @ preferred);
          total_skills = length required + length preferred;
          percentage = compute_match_percentage (length matched) total_skills;
          plan_high = plan_loop data High [] (take 3 missing_req);
          plan = plan_loop data Medium plan_high (take 2 missing_pref)
      in \<lparr>res_role = role rd,
          match_percentage = percentage,
          matched_skills = matched,
          missing_required = missing_req,
          missing_preferred = missing_pref,
          improvement_plan = plan,
          salary_range = average_salary rd,
          res_career_paths = career_paths rd\<rparr>)"

definition analyze_resume :: "role_data list \<Rightarrow> string list \<Rightarrow> string \<Rightarrow> error + match_result" where
  "analyze_resume data resume_skills target_role =
     (case find_role data target_role of
        None \<Rightarrow>
          Inl (RoleNotFound
                 (''Target role '' @ [CHR 0x22] @ target_role @ [CHR 0x22] @ '' not found.'')
                 (map role data)
                 ''Please select a role from the available options.'')
      | Some rd \<Rightarrow> Inr (compare_skills data resume_skills rd))"

section \<open>Skill extractor\<close>

text \<open>
  \<^verbatim>\<open>extract_skills(text)\<close> searches the text, for every skill of the catalog, with the
  pattern \<^verbatim>\<open>r'\b' + re.escape(skill) + r'\b'\<close> under \<^verbatim>\<open>re.IGNORECASE\<close>.
  \<^verbatim>\<open>re.escape\<close> returns a pattern that matches the characters of the skill literally,
  so the compiled pattern is a word-boundary assertion, one literal per character of the
  skill, and a word-boundary assertion. \<^verbatim>\<open>\b\<close> holds at a position when exactly one of
  the characters before and after it is a word character (letter, digit or underscore);
  the two ends of the text count as non-word characters. A literal matches a character
  with the same lower-case form. \<^verbatim>\<open>re.search\<close> tries every start position.
  The result is a Python set turned into a list, in no particular order: it is modelled
  as a set.
\<close>

definition is_word_char :: "char \<Rightarrow> bool" where
  "is_word_char c =
     (c \<in> set ''abcdefghijklmnopqrstuvwxyzABCDEFGHIJKLMNOPQRSTUVWXYZ0123456789_'')"

datatype atom = WordBoundary | Literal char

definition skill_pattern :: "string \<Rightarrow> atom list" where
  "skill_pattern sk = WordBoundary # map Literal sk @ [WordBoundary]"

definition at_word_boundary :: "string \<Rightarrow> nat \<Rightarrow> bool" where
  "at_word_boundary text i =
     ((0 < i \<and> is_word_char (text ! (i - 1))) \<noteq> (i < length text \<and> is_word_char (text ! i)))"

fun match_here :: "atom list \<Rightarrow> string \<Rightarrow> nat \<Rightarrow> bool" where
  "match_here [] text i = True"
| "match_here (WordBoundary # ps) text i = (at_word_boundary text i \<and> match_here ps text i)"
| "match_here (Literal c # ps) text i =
     (i < length text \<and> lower_char (text ! i) = lower_char c \<and> match_here ps text (Suc i))"

definition re_search :: "atom list \<Rightarrow> string \<Rightarrow> bool" where
  "re_search pat text = list_ex (match_here pat text) [0..<Suc (length text)]"

definition all_skills :: "role_data list \<Rightarrow> string set" where
  "all_skills data =
     foldl (\<lambda>acc r. acc \<union> set (required_skills r) \<union> set (preferred_skills r)) {} data"

definition extract_skills :: "role_data list \<Rightarrow> string \<Rightarrow> string set" where
  "extract_skills data text =
     Set.filter (\<lambda>sk. re_search (skill_pattern sk) text) (all_skills data)"

text \<open>
  The specification's wording: the text contains the skill as a case-insensitive
  whole-word match, with a word boundary on both sides of the occurrence.
\<close>

definition word_boundary_between :: "string \<Rightarrow> string \<Rightarrow> bool" where
  "word_boundary_between before after =
     ((before \<noteq> [] \<and> is_word_char (last before)) \<noteq> (after \<noteq> [] \<and> is_word_char (hd after)))"

definition whole_word_occurrence :: "string \<Rightarrow> string \<Rightarrow> bool" where
  "whole_word_occurrence s text =
     (\<exists>pre mid post. text = pre @ mid @ post \<and> lower mid = lower s
        \<and> word_boundary_between pre (mid @ post) \<and> word_boundary_between (pre @ mid) post)"

section \<open>Career-path recommender\<close>

text \<open>
  \<^verbatim>\<open>career_path\<close> (lines 490-538), as a function of the catalog, the skills and the
  experience level of the request. \<^verbatim>\<open>missing_skills\<close> is a set turned into a list, in
  no particular order: it is modelled as a set.
\<close>

text \<open>
  \<^verbatim>\<open>s.split(sep)\<close> for a non-empty separator: the text is cut at every occurrence of
  the separator, scanning from the left; \<open>cur\<close> is the piece being read. The code only
  splits on the separator \<^verbatim>\<open>' to '\<close>.
\<close>

function split_on :: "string \<Rightarrow> string \<Rightarrow> string \<Rightarrow> string list" where
  "split_on sep cur s =
     (if s = [] then [cur]
      else if sep \<noteq> [] \<and> prefix sep s then cur # split_on sep [] (drop (length sep) s)
      else split_on sep (cur @ [hd s]) (tl s))"
  by pat_completeness auto
termination
  by (relation "measure (\<lambda>(sep, cur, s). length s)") (auto simp: neq_Nil_conv)

declare split_on.simps [simp del]

definition str_split :: "string \<Rightarrow> string \<Rightarrow> string list" where
  "str_split s sep = split_on sep [] s"

text \<open>
  \<^verbatim>\<open>level_order.index(x)\<close> raises \<^verbatim>\<open>ValueError\<close> when \<open>x\<close> is not in the list;
  \<open>None\<close> stands for the exception.
\<close>

definition level_order :: "string list" where
  "level_order = [''Entry'', ''Mid'', ''Senior'', ''Lead'']"

fun list_index :: "'a list \<Rightarrow> 'a \<Rightarrow> nat option" where
  "list_index [] x = None"
| "list_index (y # ys) x = (if y = x then Some 0 else map_option Suc (list_index ys x))"

text \<open>
  Lines 506-508: the role's level range, read from \<^verbatim>\<open>experience_level\<close> with the
  default \<^verbatim>\<open>'Entry to Senior'\<close>. The split never returns an empty list
  (\<open>split_on_not_Nil\<close> below), so \<^verbatim>\<open>role_levels[0]\<close> exists.
\<close>

definition role_levels :: "role_data \<Rightarrow> string list" where
  "role_levels r =
     str_split (case experience_level r of None \<Rightarrow> ''Entry to Senior'' | Some s \<Rightarrow> s) '' to ''"

definition min_level :: "role_data \<Rightarrow> string" where
  "min_level r = hd (role_levels r)"

definition max_level :: "role_data \<Rightarrow> string" where
  "max_level r = (if 1 < length (role_levels r) then last (role_levels r) else min_level r)"

text \<open>
  Lines 511-517: \<open>True\<close> is the \<^verbatim>\<open>continue\<close>. The operands are evaluated left to
  right, the \<^verbatim>\<open>or\<close> stops at the first true test, and a \<^verbatim>\<open>ValueError\<close> from any
  \<^verbatim>\<open>index\<close> call is caught: the role is then kept.
\<close>

definition experience_excludes :: "string \<Rightarrow> role_data \<Rightarrow> bool" where
  "experience_excludes lvl r =
     (case list_index level_order lvl of
        None \<Rightarrow> False
      | Some e \<Rightarrow>
          (case list_index level_order (min_level r) of
             None \<Rightarrow> False
           | Some lo \<Rightarrow>
               if e < lo then True
               else (case list_index level_order (max_level r) of
                       None \<Rightarrow> False
                     | Some hi \<Rightarrow> hi < e)))"

record recommendation =
  rec_role :: string
  rec_category :: string
  match_score :: rat
  salary :: "(string \<times> int) list"
  growth :: int
  missing_skills :: "string set"
  rec_courses :: "course list"

text \<open>
  Line 520: the score is a float, a whole number plus a multiple of one half; such sums
  are exact in binary64, so it is modelled as a rational.
\<close>

definition role_score :: "string list \<Rightarrow> role_data \<Rightarrow> rat" where
  "role_score resume_skills r =
     (let required = set (required_skills r);
          preferred = set (preferred_skills r);
          matched = required \<inter> set resume_skills
      in of_nat (card matched) + (1 / 2) * of_nat (card (preferred \<inter> set resume_skills)))"

definition current_growth :: "role_data \<Rightarrow> int" where
  "current_growth r =
     (case demand_index r of
        None \<Rightarrow> 100
      | Some xs \<Rightarrow> if xs = [] then 100 else last xs)"

definition recommendation_of :: "string list \<Rightarrow> role_data \<Rightarrow> recommendation" where
  "recommendation_of resume_skills r =
     \<lparr>rec_role = role r,
      rec_category = category r,
      match_score = role_score resume_skills r,
      salary = average_salary r,
      growth = current_growth r,
      missing_skills = set (required_skills r) - set resume_skills,
      rec_courses = recommended_courses r\<rparr>"

definition career_path_step ::
  "string list \<Rightarrow> string \<Rightarrow> recommendation list \<Rightarrow> role_data \<Rightarrow> recommendation list" where
  "career_path_step resume_skills lvl recommended_roles r =
     (if experience_excludes lvl r then recommended_roles
      else if 0 < role_score resume_skills r
           then recommended_roles @ [recommendation_of resume_skills r]
           else recommended_roles)"

text \<open>
  \<^verbatim>\<open>list.sort(key=f, reverse=True)\<close> is stable: it reverses the list, sorts it
  stably in ascending order of the key, and reverses the result. Tuples compare
  lexicographically.
\<close>

definition sort_reverse :: "('a \<Rightarrow> 'k::linorder) \<Rightarrow> 'a list \<Rightarrow> 'a list" where
  "sort_reverse f xs = rev (sort_key f (rev xs))"

definition career_path :: "role_data list \<Rightarrow> string list \<Rightarrow> string \<Rightarrow> recommendation list" where
  "career_path data resume_skills lvl =
     take 5 (sort_reverse (\<lambda>x. (match_score x, growth x))
               (foldl (career_path_step resume_skills lvl) [] data))"

section \<open>Example catalogs\<close>

text \<open>
  A role that lists one skill as both required and preferred, and a role with fifty
  skills together with a resume that has the first twenty-nine of them.
\<close>

definition backend_developer :: role_data where
  "backend_developer =
     \<lparr>role = ''Backend Developer'', category = ''Technology'',
      required_skills = [''Python'', ''SQL''],
      preferred_skills = [''Docker'', ''Python''],
      average_salary = [(''entry'', 70000)],
      demand_index = Some [100],
      recommended_courses = [],
      experience_level = None,
      career_paths = []\<rparr>"

definition platform_engineer :: role_data where
  "platform_engineer =
     \<lparr>role = ''Platform Engineer'', category = ''Technology'',
      required_skills =
        [''Python'', ''Java'', ''Go'', ''Rust'', ''SQL'', ''Git'', ''Linux'', ''Bash'',
         ''Docker'', ''Kubernetes'', ''Terraform'', ''Ansible'', ''AWS'', ''Azure'', ''GCP'',
         ''Jenkins'', ''Nginx'', ''Redis'', ''Kafka'', ''PostgreSQL'', ''MySQL'', ''MongoDB'',
         ''Prometheus'', ''Grafana'', ''Helm'', ''Vault'', ''Consul'', ''Istio'', ''Envoy'',
         ''Packer''],
      preferred_skills =
        [''Scala'', ''Kotlin'', ''Ruby'', ''Perl'', ''PHP'', ''Swift'', ''Haskell'', ''Erlang'',
         ''Elixir'', ''Lua'', ''Puppet'', ''Chef'', ''Nomad'', ''Spark'', ''Hadoop'', ''Flink'',
         ''Airflow'', ''Snowflake'', ''Elasticsearch'', ''RabbitMQ''],
      average_salary = [(''entry'', 90000)],
      demand_index = Some [100],
      recommended_courses = [],
      experience_level = None,
      career_paths = []\<rparr>"

definition platform_resume :: "string list" where
  "platform_resume =
     [''Python'', ''Java'', ''Go'', ''Rust'', ''SQL'', ''Git'', ''Linux'', ''Bash'',
      ''Docker'', ''Kubernetes'', ''Terraform'', ''Ansible'', ''AWS'', ''Azure'', ''GCP'',
      ''Jenkins'', ''Nginx'', ''Redis'', ''Kafka'', ''PostgreSQL'', ''MySQL'', ''MongoDB'',
      ''Prometheus'', ''Grafana'', ''Helm'', ''Vault'', ''Consul'', ''Istio'', ''Envoy'']"

text \<open>
  A role whose skills begin or end with characters that are not word characters, and a
  catalog whose whole vocabulary is \<open>Python\<close>.
\<close>

definition game_developer :: role_data where
  "game_developer =
     \<lparr>role = ''Game Developer'', category = ''Technology'',
      required_skills = [''C++'', ''Python''],
      preferred_skills = [''C#'', ''.NET''],
      average_salary = [(''entry'', 70000)],
      demand_index = Some [100],
      recommended_courses = [],
      experience_level = None,
      career_paths = []\<rparr>"

definition python_only :: role_data where
  "python_only =
     \<lparr>role = ''Python Developer'', category = ''Technology'',
      required_skills = [''Python''],
      preferred_skills = [],
      average_salary = [(''entry'', 70000)],
      demand_index = Some [100],
      recommended_courses = [],
      experience_level = None,
      career_paths = []\<rparr>"

section \<open>Properties of the course finder\<close>

lemma str_contains_iff: "str_contains sub s \<longleftrightarrow> (\<exists>pre post. s = pre @ sub @ post)"
proof (induction s)
  case Nil
  then show ?case by auto
next
  case (Cons c cs)
  show ?case
  proof
    assume "str_contains sub (c # cs)"
    then consider "prefix sub (c # cs)" | "str_contains sub cs" by auto
    then show "\<exists>pre post. c # cs = pre @ sub @ post"
    proof cases
      case 1
      then obtain post where "c # cs = sub @ post" by (auto simp: prefix_def)
      then have "c # cs = [] @ sub @ post" by simp
      then show ?thesis by blast
    next
      case 2
      with Cons.IH obtain pre post where "cs = pre @ sub @ post" by blast
      then have "c # cs = (c # pre) @ sub @ post" by simp
      then show ?thesis by blast
    qed
  next
    assume "\<exists>pre post. c # cs = pre @ sub @ post"
    then obtain pre post where eq: "c # cs = pre @ sub @ post" by blast
    show "str_contains sub (c # cs)"
    proof (cases pre)
      case Nil
      with eq have "prefix sub (c # cs)" by (simp add: prefix_def)
      then show ?thesis by simp
    next
      case (Cons p ps)
      with eq have "cs = ps @ sub @ post" by simp
      with Cons.IH have "str_contains sub cs" by blast
      then show ?thesis by simp
    qed
  qed
qed

lemma foldl_append_if:
  "foldl (\<lambda>acc c. if P c then acc @ [c] else acc) acc xs = acc @ filter P xs"
  by (induction xs arbitrary: acc) auto

lemma find_courses_in_role_eq:
  "find_courses_in_role sk courses r =
   courses @ filter (course_matches sk) (recommended_courses r)"
  by (simp add: find_courses_in_role_def foldl_append_if)

lemma foldl_find_courses_in_role:
  "foldl (find_courses_in_role sk) acc data =
   acc @ filter (course_matches sk) (concat (map recommended_courses data))"
  by (induction data arbitrary: acc) (auto simp: find_courses_in_role_eq)

lemma find_courses_eq:
  "find_courses data sk =
   take 3 (filter (course_matches sk) (concat (map recommended_courses data)))"
  by (simp add: find_courses_def foldl_find_courses_in_role)

lemma find_courses_length: "length (find_courses data sk) \<le> 3"
  by (simp add: find_courses_def)

text \<open>
  C9. \<open>find_courses\<close> returns the first three courses, in catalog order (roles in
  order, courses in order within a role), whose lower-cased title contains the
  lower-cased skill as a substring; ratings play no part. So it returns at most three
  courses, each one matching, and the empty list when no course matches.
\<close>

theorem find_courses_first_three_matches:
  "find_courses data sk =
     take 3 (filter (course_matches sk) (concat (map recommended_courses data)))
   \<and> length (find_courses data sk) \<le> 3
   \<and> (\<forall>c \<in> set (find_courses data sk).
         \<exists>pre post. lower (course_title c) = pre @ lower sk @ post)
   \<and> ((\<forall>r \<in> set data. \<forall>c \<in> set (recommended_courses r). \<not> course_matches sk c)
        \<longrightarrow> find_courses data sk = [])"
proof -
  have match: "\<exists>pre post. lower (course_title c) = pre @ lower sk @ post"
    if "c \<in> set (find_courses data sk)" for c
  proof -
    from that have "c \<in> set (filter (course_matches sk) (concat (map recommended_courses data)))"
      unfolding find_courses_eq by (rule in_set_takeD)
    then have "course_matches sk c" by simp
    then show ?thesis by (simp add: course_matches_def str_contains_iff)
  qed
  have none: "find_courses data sk = []"
    if "\<forall>r \<in> set data. \<forall>c \<in> set (recommended_courses r). \<not> course_matches sk c"
  proof -
    from that have "filter (course_matches sk) (concat (map recommended_courses data)) = []"
      by (auto simp: filter_empty_conv)
    then show ?thesis by (simp add: find_courses_eq)
  qed
  show ?thesis using find_courses_eq find_courses_length match none by blast
qed

theorem find_courses_first_three_matches_witness:
  "find_courses create_default_career_data ''PYTHON'' =
     [\<lparr>title = Some ''Complete Python Bootcamp'', platform = ''Udemy'',
       duration = ''40 hours'', rating = 46 / 10\<rparr>]
   \<and> find_courses create_default_career_data ''Rust'' = []"
proof -
  have none: "\<forall>r \<in> set create_default_career_data.
      \<forall>c \<in> set (recommended_courses r). \<not> course_matches ''Rust'' c"
    by code_simp
  from find_courses_first_three_matches [of create_default_career_data "''Rust''"]
  have "(\<forall>r \<in> set create_default_career_data.
           \<forall>c \<in> set (recommended_courses r). \<not> course_matches ''Rust'' c)
        \<longrightarrow> find_courses create_default_career_data ''Rust'' = []"
    by (elim conjE)
  with none have rust: "find_courses create_default_career_data ''Rust'' = []"
    by (rule rev_mp)
  from find_courses_first_three_matches [of create_default_career_data "''PYTHON''"]
  have "find_courses create_default_career_data ''PYTHON'' =
      take 3 (filter (course_matches ''PYTHON'')
        (concat (map recommended_courses create_default_career_data)))"
    by (elim conjE)
  also have "\<dots> = [\<lparr>title = Some ''Complete Python Bootcamp'', platform = ''Udemy'',
       duration = ''40 hours'', rating = 46 / 10\<rparr>]"
    by code_simp
  finally show ?thesis using rust by (rule conjI)
qed

section \<open>Properties of the match scorer\<close>

lemma analyze_resume_found:
  "find_role data target_role = Some rd \<Longrightarrow>
   analyze_resume data resume_skills target_role = Inr (compare_skills data resume_skills rd)"
  by (simp add: analyze_resume_def)

lemma find_role_default_lowercase:
  "find_role create_default_career_data ''software engineer'' = Some default_software_engineer"
  by code_simp

text \<open>
  C5. Whenever the target role resolves to a role of the catalog, the result lists as
  missing required (preferred) skills exactly the required (preferred) skills of the role
  that are not among the resume's skills, in the role's order, and no missing required
  skill is among the resume's skills.
\<close>

theorem missing_skills_are_role_minus_resume:
  assumes "find_role data target_role = Some rd"
  shows "\<exists>res. analyze_resume data resume_skills target_role = Inr res
    \<and> missing_required res = filter (\<lambda>s. s \<notin> set resume_skills) (required_skills rd)
    \<and> missing_preferred res = filter (\<lambda>s. s \<notin> set resume_skills) (preferred_skills rd)
    \<and> set (missing_required res) = set (required_skills rd) - set resume_skills
    \<and> set (missing_preferred res) = set (preferred_skills rd) - set resume_skills
    \<and> subseq (missing_required res) (required_skills rd)
    \<and> subseq (missing_preferred res) (preferred_skills rd)
    \<and> set (missing_required res) \<inter> set resume_skills = {}"
proof -
  let ?res = "compare_skills data resume_skills rd"
  have run: "analyze_resume data resume_skills target_role = Inr ?res"
    using assms by (rule analyze_resume_found)
  have mr: "missing_required ?res = filter (\<lambda>s. s \<notin> set resume_skills) (required_skills rd)"
    by (simp add: compare_skills_def Let_def)
  have mp: "missing_preferred ?res = filter (\<lambda>s. s \<notin> set resume_skills) (preferred_skills rd)"
    by (simp add: compare_skills_def Let_def)
  have "set (missing_required ?res) = set (required_skills rd) - set resume_skills"
    unfolding mr by auto
  moreover have "set (missing_preferred ?res) = set (preferred_skills rd) - set resume_skills"
    unfolding mp by auto
  moreover have "subseq (missing_required ?res) (required_skills rd)"
    unfolding mr by simp
  moreover have "subseq (missing_preferred ?res) (preferred_skills rd)"
    unfolding mp by simp
  moreover have "set (missing_required ?res) \<inter> set resume_skills = {}"
    unfolding mr by auto
  ultimately show ?thesis using run mr mp by blast
qed

theorem missing_skills_are_role_minus_resume_witness:
  "\<exists>res. analyze_resume create_default_career_data [''Python'', ''Git''] ''software engineer'' = Inr res
    \<and> missing_required res = [''JavaScript'', ''SQL'']
    \<and> missing_preferred res = [''React'', ''Node.js'', ''Docker'', ''AWS'']"
proof -
  from missing_skills_are_role_minus_resume
         [OF find_role_default_lowercase, of "[''Python'', ''Git'']"]
  obtain res where
    "analyze_resume create_default_career_data [''Python'', ''Git''] ''software engineer'' = Inr res"
    "missing_required res =
       filter (\<lambda>s. s \<notin> set [''Python'', ''Git'']) (required_skills default_software_engineer)"
    "missing_preferred res =
       filter (\<lambda>s. s \<notin> set [''Python'', ''Git'']) (preferred_skills default_software_engineer)"
    by blast
  then show ?thesis
    by (simp add: default_software_engineer_def)
qed

lemma plan_loop_eq:
  "plan_loop data p plan sks =
   plan @ map (\<lambda>s. \<lparr>skill = s, priority = p, resources = find_courses data s\<rparr>) sks"
  unfolding plan_loop_def by (induction sks arbitrary: plan) auto

lemma improvement_plan_eq:
  "improvement_plan (compare_skills data resume_skills rd) =
   map (\<lambda>s. \<lparr>skill = s, priority = High, resources = find_courses data s\<rparr>)
     (take 3 (missing_required (compare_skills data resume_skills rd)))
   @ map (\<lambda>s. \<lparr>skill = s, priority = Medium, resources = find_courses data s\<rparr>)
     (take 2 (missing_preferred (compare_skills data resume_skills rd)))"
  by (simp add: compare_skills_def Let_def plan_loop_eq)

text \<open>
  C6. Whenever the target role resolves, the improvement plan is the first three missing
  required skills with priority High followed by the first two missing preferred skills
  with priority Medium, each with the courses \<open>find_courses\<close> returns for it (at
  most three). Shorter lists give shorter plans. With no resume skills the plan comes
  from the role's required and preferred skills themselves.
\<close>

theorem improvement_plan_three_high_two_medium:
  assumes "find_role data target_role = Some rd"
  shows "\<exists>res. analyze_resume data resume_skills target_role = Inr res
    \<and> improvement_plan res =
        map (\<lambda>s. \<lparr>skill = s, priority = High, resources = find_courses data s\<rparr>)
          (take 3 (missing_required res))
        @ map (\<lambda>s. \<lparr>skill = s, priority = Medium, resources = find_courses data s\<rparr>)
          (take 2 (missing_preferred res))
    \<and> length (improvement_plan res) =
        min 3 (length (missing_required res)) + min 2 (length (missing_preferred res))
    \<and> length (improvement_plan res) \<le> 5
    \<and> (\<forall>e \<in> set (improvement_plan res). length (resources e) \<le> 3)
    \<and> (resume_skills = [] \<longrightarrow>
         improvement_plan res =
           map (\<lambda>s. \<lparr>skill = s, priority = High, resources = find_courses data s\<rparr>)
             (take 3 (required_skills rd))
           @ map (\<lambda>s. \<lparr>skill = s, priority = Medium, resources = find_courses data s\<rparr>)
             (take 2 (preferred_skills rd)))"
proof -
  let ?res = "compare_skills data resume_skills rd"
  have run: "analyze_resume data resume_skills target_role = Inr ?res"
    using assms by (rule analyze_resume_found)
  note plan = improvement_plan_eq [of data resume_skills rd]
  have len: "length (improvement_plan ?res) =
      min 3 (length (missing_required ?res)) + min 2 (length (missing_preferred ?res))"
    unfolding plan by (simp add: min.commute)
  then have le5: "length (improvement_plan ?res) \<le> 5" by linarith
  have res3: "\<forall>e \<in> set (improvement_plan ?res). length (resources e) \<le> 3"
    unfolding plan by (auto simp: find_courses_length)
  have empty: "resume_skills = [] \<longrightarrow>
      improvement_plan ?res =
        map (\<lambda>s. \<lparr>skill = s, priority = High, resources = find_courses data s\<rparr>)
          (take 3 (required_skills rd))
        @ map (\<lambda>s. \<lparr>skill = s, priority = Medium, resources = find_courses data s\<rparr>)
          (take 2 (preferred_skills rd))"
    by (simp add: compare_skills_def Let_def plan_loop_eq)
  show ?thesis
    by (rule exI [of _ ?res]) (intro conjI run plan len le5 res3 empty)
qed

theorem improvement_plan_three_high_two_medium_witness:
  "\<exists>res. analyze_resume create_default_career_data [] ''software engineer'' = Inr res
    \<and> map skill (improvement_plan res) = [''Python'', ''JavaScript'', ''Git'', ''React'', ''Node.js'']
    \<and> map priority (improvement_plan res) = [High, High, High, Medium, Medium]"
proof -
  from improvement_plan_three_high_two_medium [OF find_role_default_lowercase, of "[]"]
  obtain res where
    "analyze_resume create_default_career_data [] ''software engineer'' = Inr res"
    "improvement_plan res =
       map (\<lambda>s. \<lparr>skill = s, priority = High,
                  resources = find_courses create_default_career_data s\<rparr>)
         (take 3 (required_skills default_software_engineer))
       @ map (\<lambda>s. \<lparr>skill = s, priority = Medium,
                    resources = find_courses create_default_career_data s\<rparr>)
         (take 2 (preferred_skills default_software_engineer))"
    by blast
  then show ?thesis
    by (simp add: default_software_engineer_def)
qed

lemma find_role_first:
  "find_role data t = Some rd \<Longrightarrow>
   \<exists>pre post. data = pre @ rd # post \<and> (\<forall>r \<in> set pre. lower (role r) \<noteq> lower t)
     \<and> lower (role rd) = lower t"
proof (induction data)
  case Nil
  then show ?case by simp
next
  case (Cons r rs)
  show ?case
  proof (cases "lower (role r) = lower t")
    case True
    with Cons.prems have "rd = r" by simp
    with True have "r # rs = [] @ rd # rs \<and> (\<forall>r \<in> set []. lower (role r) \<noteq> lower t)
        \<and> lower (role rd) = lower t" by simp
    then show ?thesis by blast
  next
    case False
    with Cons.prems have "find_role rs t = Some rd" by simp
    with Cons.IH obtain pre post where
      "rs = pre @ rd # post" "\<forall>r \<in> set pre. lower (role r) \<noteq> lower t" "lower (role rd) = lower t"
      by blast
    with False have "r # rs = (r # pre) @ rd # post \<and> (\<forall>x \<in> set (r # pre). lower (role x) \<noteq> lower t)
        \<and> lower (role rd) = lower t" by simp
    then show ?thesis by blast
  qed
qed

lemma find_role_None_iff:
  "find_role data t = None \<longleftrightarrow> (\<forall>r \<in> set data. lower (role r) \<noteq> lower t)"
  by (induction data) auto

text \<open>
  C7. The target role resolves to the first role of the catalog whose lower-cased name
  equals the lower-cased target, and the scorer runs on that role; when no role has such
  a name the answer is the not-found error carrying the names of all roles of the
  catalog, and no result. On the built-in catalog \<open>software engineer\<close> resolves to
  \<open>Software Engineer\<close>.
\<close>

theorem role_lookup_case_insensitive_or_not_found:
  "(if \<exists>r \<in> set data. lower (role r) = lower target_role
    then \<exists>pre rd post. data = pre @ rd # post
           \<and> (\<forall>r \<in> set pre. lower (role r) \<noteq> lower target_role)
           \<and> lower (role rd) = lower target_role
           \<and> analyze_resume data resume_skills target_role
               = Inr (compare_skills data resume_skills rd)
    else \<exists>message suggestion.
           analyze_resume data resume_skills target_role
             = Inl (RoleNotFound message (map role data) suggestion))
   \<and> (\<exists>res. analyze_resume create_default_career_data resume_skills ''software engineer'' = Inr res
          \<and> res_role res = ''Software Engineer'')"
proof -
  have found: "\<exists>pre rd post. data = pre @ rd # post
           \<and> (\<forall>r \<in> set pre. lower (role r) \<noteq> lower target_role)
           \<and> lower (role rd) = lower target_role
           \<and> analyze_resume data resume_skills target_role
               = Inr (compare_skills data resume_skills rd)"
    if "\<exists>r \<in> set data. lower (role r) = lower target_role"
  proof -
    from that have "find_role data target_role \<noteq> None"
      by (simp add: find_role_None_iff)
    then obtain rd where rd: "find_role data target_role = Some rd" by blast
    from find_role_first [OF rd] analyze_resume_found [OF rd, of resume_skills]
    show ?thesis by blast
  qed
  have missing: "\<exists>message suggestion.
           analyze_resume data resume_skills target_role
             = Inl (RoleNotFound message (map role data) suggestion)"
    if "\<not> (\<exists>r \<in> set data. lower (role r) = lower target_role)"
  proof -
    from that have "find_role data target_role = None"
      by (simp add: find_role_None_iff)
    then show ?thesis by (simp add: analyze_resume_def)
  qed
  have scenario: "\<exists>res. analyze_resume create_default_career_data resume_skills ''software engineer'' = Inr res
          \<and> res_role res = ''Software Engineer''"
    using analyze_resume_found [OF find_role_default_lowercase, of resume_skills]
    by (simp add: compare_skills_def Let_def default_software_engineer_def)
  show ?thesis using found missing scenario by simp
qed

theorem role_lookup_case_insensitive_or_not_found_witness:
  "(\<exists>pre post. create_default_career_data = pre @ default_data_scientist # post
      \<and> analyze_resume create_default_career_data [''Python''] ''DATA scientist''
          = Inr (compare_skills create_default_career_data [''Python''] default_data_scientist))
   \<and> (\<exists>message suggestion.
         analyze_resume create_default_career_data [''Python''] ''Astronaut''
           = Inl (RoleNotFound message [''Software Engineer'', ''Data Scientist''] suggestion))"
proof -
  have yes: "\<exists>r \<in> set create_default_career_data. lower (role r) = lower ''DATA scientist''"
    by code_simp
  have no: "\<not> (\<exists>r \<in> set create_default_career_data. lower (role r) = lower ''Astronaut'')"
    by code_simp
  have names: "map role create_default_career_data = [''Software Engineer'', ''Data Scientist'']"
    by code_simp
  have uniq: "rd = default_data_scientist"
    if "create_default_career_data = pre @ rd # post"
      and "\<forall>r \<in> set pre. lower (role r) \<noteq> lower ''DATA scientist''"
      and "lower (role rd) = lower ''DATA scientist''" for pre rd post
  proof -
    have se: "lower (role default_software_engineer) \<noteq> lower ''DATA scientist''"
      by code_simp
    have "rd \<in> set create_default_career_data" by (subst that(1)) simp
    then have "rd = default_software_engineer \<or> rd = default_data_scientist"
      by (simp add: create_default_career_data_def)
    with that(3) se show ?thesis by auto
  qed
  from role_lookup_case_insensitive_or_not_found
      [of create_default_career_data "''DATA scientist''" "[''Python'']"] yes
  obtain pre rd post where
    "create_default_career_data = pre @ rd # post"
    "\<forall>r \<in> set pre. lower (role r) \<noteq> lower ''DATA scientist''"
    "lower (role rd) = lower ''DATA scientist''"
    "analyze_resume create_default_career_data [''Python''] ''DATA scientist''
       = Inr (compare_skills create_default_career_data [''Python''] rd)"
    by (simp only: if_True) blast
  with uniq have first: "\<exists>pre post. create_default_career_data = pre @ default_data_scientist # post
      \<and> analyze_resume create_default_career_data [''Python''] ''DATA scientist''
          = Inr (compare_skills create_default_career_data [''Python''] default_data_scientist)"
    by blast
  from role_lookup_case_insensitive_or_not_found
      [of create_default_career_data "''Astronaut''" "[''Python'']"] no
  have "\<exists>message suggestion.
         analyze_resume create_default_career_data [''Python''] ''Astronaut''
           = Inl (RoleNotFound message (map role create_default_career_data) suggestion)"
    by (simp only: if_False)
  with names first show ?thesis by simp
qed

lemma compute_match_percentage_no_skills: "compute_match_percentage m 0 = 0"
  by (simp add: compute_match_percentage_def)

text \<open>
  C1. With no skills in the role the percentage is 0. For a role with fifty skills of
  which the resume has twenty-nine, the quotient \<open>29 / 50\<close> rounds to a binary64
  number whose product with 100 rounds to the number just below 58, so the percentage
  is 57, whereas \<open>\<lfloor>100 \<times> 29 / 50\<rfloor> = 58\<close>.
\<close>

theorem match_percentage_29_of_50_is_57:
  "analyze_resume [platform_engineer] platform_resume ''Platform Engineer''
     = Inr (compare_skills [platform_engineer] platform_resume platform_engineer)
   \<and> length (matched_skills (compare_skills [platform_engineer] platform_resume platform_engineer)) = 29
   \<and> length (required_skills platform_engineer) + length (preferred_skills platform_engineer) = 50
   \<and> match_percentage (compare_skills [platform_engineer] platform_resume platform_engineer) = 57
   \<and> \<lfloor>100 * 29 / 50 :: rat\<rfloor> = 58"
proof -
  have "find_role [platform_engineer] ''Platform Engineer'' = Some platform_engineer"
    by code_simp
  then have run: "analyze_resume [platform_engineer] platform_resume ''Platform Engineer''
     = Inr (compare_skills [platform_engineer] platform_resume platform_engineer)"
    by (rule analyze_resume_found)
  have m: "length (matched_skills (compare_skills [platform_engineer] platform_resume platform_engineer)) = 29"
    by code_simp
  have t: "length (required_skills platform_engineer) + length (preferred_skills platform_engineer) = 50"
    by code_simp
  have p: "match_percentage (compare_skills [platform_engineer] platform_resume platform_engineer) = 57"
    by code_simp
  have f: "\<lfloor>100 * 29 / 50 :: rat\<rfloor> = 58"
    by simp
  from run m t p f show ?thesis by (intro conjI)
qed

text \<open>
  C2, as stated, fails: a skill that the role lists as both required and preferred, and
  that the resume has, is listed twice among the matched skills.
\<close>

theorem matched_skills_repeat_shared_skill:
  "analyze_resume [backend_developer] [''Python''] ''Backend Developer''
     = Inr (compare_skills [backend_developer] [''Python''] backend_developer)
   \<and> matched_skills (compare_skills [backend_developer] [''Python''] backend_developer)
     = [''Python'', ''Python'']
   \<and> \<not> distinct (matched_skills (compare_skills [backend_developer] [''Python''] backend_developer))"
proof -
  have "find_role [backend_developer] ''Backend Developer'' = Some backend_developer"
    by code_simp
  then have run: "analyze_resume [backend_developer] [''Python''] ''Backend Developer''
     = Inr (compare_skills [backend_developer] [''Python''] backend_developer)"
    by (rule analyze_resume_found)
  have m: "matched_skills (compare_skills [backend_developer] [''Python''] backend_developer)
     = [''Python'', ''Python'']"
    by code_simp
  then have d: "\<not> distinct (matched_skills (compare_skills [backend_developer] [''Python''] backend_developer))"
    by simp
  from run m d show ?thesis by (intro conjI)
qed

lemma count_list_filter:
  "count_list (filter P xs) x = (if P x then count_list xs x else 0)"
  by (induction xs) auto

text \<open>
  C2, amended. Whenever the target role resolves, the matched skills are the role's
  required skills followed by its preferred skills, restricted to the skills of the
  resume: as a set this is (required \<union> preferred) \<inter> resume, the order is that of the
  concatenation, and a skill occurs as often as it occurs in the concatenation. There are
  no duplicates when the concatenation has none.
\<close>

theorem matched_skills_are_filtered_concatenation:
  assumes "find_role data target_role = Some rd"
  shows "\<exists>res. analyze_resume data resume_skills target_role = Inr res
    \<and> matched_skills res
        = filter (\<lambda>s. s \<in> set resume_skills) (required_skills rd @ preferred_skills rd)
    \<and> set (matched_skills res)
        = (set (required_skills rd) \<union> set (preferred_skills rd)) \<inter> set resume_skills
    \<and> subseq (matched_skills res) (required_skills rd @ preferred_skills rd)
    \<and> (\<forall>s. count_list (matched_skills res) s
          = (if s \<in> set resume_skills
             then count_list (required_skills rd @ preferred_skills rd) s else 0))
    \<and> (distinct (required_skills rd @ preferred_skills rd) \<longrightarrow> distinct (matched_skills res))"
proof -
  let ?res = "compare_skills data resume_skills rd"
  have run: "analyze_resume data resume_skills target_role = Inr ?res"
    using assms by (rule analyze_resume_found)
  have m: "matched_skills ?res
      = filter (\<lambda>s. s \<in> set resume_skills) (required_skills rd @ preferred_skills rd)"
    by (simp add: compare_skills_def Let_def)
  have s: "set (matched_skills ?res)
      = (set (required_skills rd) \<union> set (preferred_skills rd)) \<inter> set resume_skills"
    unfolding m by auto
  have o: "subseq (matched_skills ?res) (required_skills rd @ preferred_skills rd)"
    unfolding m by (rule subseq_filter_left)
  have c: "\<forall>s. count_list (matched_skills ?res) s
          = (if s \<in> set resume_skills
             then count_list (required_skills rd @ preferred_skills rd) s else 0)"
    unfolding m by (simp add: count_list_filter)
  have d: "distinct (required_skills rd @ preferred_skills rd) \<longrightarrow> distinct (matched_skills ?res)"
    unfolding m by (rule impI) (rule distinct_filter)
  show ?thesis
    by (rule exI [of _ ?res]) (intro conjI run m s o c d)
qed

theorem matched_skills_are_filtered_concatenation_witness:
  "\<exists>res. analyze_resume create_default_career_data [''AWS'', ''Python'', ''COBOL''] ''software engineer'' = Inr res
    \<and> matched_skills res = [''Python'', ''AWS'']
    \<and> distinct (matched_skills res)"
proof -
  have d: "distinct (required_skills default_software_engineer @ preferred_skills default_software_engineer)"
    by code_simp
  have f: "filter (\<lambda>s. s \<in> set [''AWS'', ''Python'', ''COBOL''])
        (required_skills default_software_engineer @ preferred_skills default_software_engineer)
      = [''Python'', ''AWS'']"
    by code_simp
  from matched_skills_are_filtered_concatenation
         [OF find_role_default_lowercase, of "[''AWS'', ''Python'', ''COBOL'']"]
  obtain res where
    "analyze_resume create_default_career_data [''AWS'', ''Python'', ''COBOL''] ''software engineer'' = Inr res"
    "matched_skills res = filter (\<lambda>s. s \<in> set [''AWS'', ''Python'', ''COBOL''])
        (required_skills default_software_engineer @ preferred_skills default_software_engineer)"
    "distinct (required_skills default_software_engineer @ preferred_skills default_software_engineer)
       \<longrightarrow> distinct (matched_skills res)"
    by blast
  with d f show ?thesis by auto
qed

section \<open>Properties of the skill extractor\<close>

lemma foldl_union_skills:
  "foldl (\<lambda>acc r. acc \<union> set (required_skills r) \<union> set (preferred_skills r)) acc data
   = acc \<union> (\<Union>r \<in> set data. set (required_skills r) \<union> set (preferred_skills r))"
  by (induction data arbitrary: acc) auto

lemma all_skills_eq:
  "all_skills data = (\<Union>r \<in> set data. set (required_skills r) \<union> set (preferred_skills r))"
  by (simp add: all_skills_def foldl_union_skills)

lemma match_here_literals:
  "i \<le> length text \<Longrightarrow>
   match_here (map Literal s @ ps) text i \<longleftrightarrow>
     i + length s \<le> length text \<and> lower (take (length s) (drop i text)) = lower s
     \<and> match_here ps text (i + length s)"
proof (induction s arbitrary: i)
  case Nil
  then show ?case by (simp add: lower_def)
next
  case (Cons c cs)
  show ?case
  proof (cases "i < length text")
    case False
    then show ?thesis by simp
  next
    case True
    then have d: "drop i text = text ! i # drop (Suc i) text"
      by (simp add: Cons_nth_drop_Suc)
    from True have "Suc i \<le> length text" by simp
    from Cons.IH [OF this] True show ?thesis
      by (auto simp: d lower_def)
  qed
qed

lemma list_ex_upt_Suc: "list_ex P [0..<Suc n] \<longleftrightarrow> (\<exists>i\<le>n. P i)"
proof -
  have "set [0..<Suc n] = {i. i \<le> n}" by auto
  then show ?thesis unfolding list_ex_iff by blast
qed

lemma at_word_boundary_append:
  "at_word_boundary (pre @ rest) (length pre) = word_boundary_between pre rest"
proof -
  have l: "0 < length pre \<Longrightarrow> (pre @ rest) ! (length pre - 1) = last pre"
    by (simp add: nth_append last_conv_nth)
  have r: "rest \<noteq> [] \<Longrightarrow> (pre @ rest) ! length pre = hd rest"
    by (simp add: nth_append hd_conv_nth)
  show ?thesis
    unfolding at_word_boundary_def word_boundary_between_def
    using l r by (cases "pre = []"; cases "rest = []") auto
qed

lemma re_search_skill_pattern:
  "re_search (skill_pattern s) text \<longleftrightarrow>
     (\<exists>i. i + length s \<le> length text \<and> at_word_boundary text i
        \<and> lower (take (length s) (drop i text)) = lower s
        \<and> at_word_boundary text (i + length s))"
  (is "?lhs \<longleftrightarrow> ?rhs")
proof -
  have search: "?lhs \<longleftrightarrow>
      (\<exists>i \<le> length text. at_word_boundary text i
         \<and> match_here (map Literal s @ [WordBoundary]) text i)"
    by (simp only: re_search_def skill_pattern_def list_ex_upt_Suc append_Cons match_here.simps)
  show ?thesis
  proof
    assume ?lhs
    with search obtain i where i: "i \<le> length text" "at_word_boundary text i"
        "match_here (map Literal s @ [WordBoundary]) text i"
      by blast
    from i(3) match_here_literals [OF i(1), of s "[WordBoundary]"]
    have "i + length s \<le> length text \<and> lower (take (length s) (drop i text)) = lower s
        \<and> at_word_boundary text (i + length s)"
      by simp
    with i(2) show ?rhs by blast
  next
    assume ?rhs
    then obtain i where i: "i + length s \<le> length text" "at_word_boundary text i"
        "lower (take (length s) (drop i text)) = lower s"
        "at_word_boundary text (i + length s)"
      by blast
    from i(1) have le: "i \<le> length text" by linarith
    from i(1,3,4) match_here_literals [OF le, of s "[WordBoundary]"]
    have "match_here (map Literal s @ [WordBoundary]) text i"
      by simp
    with le i(2) search show ?lhs by blast
  qed
qed

lemma re_search_whole_word:
  "re_search (skill_pattern s) text \<longleftrightarrow> whole_word_occurrence s text"
proof
  assume "re_search (skill_pattern s) text"
  then obtain i where i: "i + length s \<le> length text" "at_word_boundary text i"
      "lower (take (length s) (drop i text)) = lower s"
      "at_word_boundary text (i + length s)"
    by (auto simp: re_search_skill_pattern)
  let ?pre = "take i text" and ?mid = "take (length s) (drop i text)"
    and ?post = "drop (i + length s) text"
  have split: "text = ?pre @ ?mid @ ?post"
    by (metis add.commute append_take_drop_id drop_drop)
  have lp: "length ?pre = i" and lm: "length (?pre @ ?mid) = i + length s"
    using i(1) by auto
  have b1: "word_boundary_between ?pre (?mid @ ?post)"
    using at_word_boundary_append [of ?pre "?mid @ ?post"] i(2) split lp by simp
  have b2: "word_boundary_between (?pre @ ?mid) ?post"
    using at_word_boundary_append [of "?pre @ ?mid" ?post] i(4) split lm
    by (metis append.assoc)
  show "whole_word_occurrence s text"
    unfolding whole_word_occurrence_def using split i(3) b1 b2 by blast
next
  assume "whole_word_occurrence s text"
  then obtain pre mid post where w: "text = pre @ mid @ post" "lower mid = lower s"
      "word_boundary_between pre (mid @ post)" "word_boundary_between (pre @ mid) post"
    unfolding whole_word_occurrence_def by blast
  from w(2) have len: "length mid = length s"
    by (metis length_map lower_def)
  have "length pre + length s \<le> length text" using w(1) len by simp
  moreover have "at_word_boundary text (length pre)"
    using at_word_boundary_append [of pre "mid @ post"] w(1,3) by simp
  moreover have "lower (take (length s) (drop (length pre) text)) = lower s"
    using w(1,2) len by simp
  moreover have "at_word_boundary text (length pre + length s)"
    using at_word_boundary_append [of "pre @ mid" post] w(1,4) len by simp
  ultimately show "re_search (skill_pattern s) text"
    unfolding re_search_skill_pattern by blast
qed

lemma whole_word_verbatim:
  assumes "sk \<noteq> []" "is_word_char (hd sk)" "is_word_char (last sk)"
  shows "whole_word_occurrence sk sk"
proof -
  have "sk = [] @ sk @ []" by simp
  moreover have "word_boundary_between [] (sk @ [])"
    using assms by (simp add: word_boundary_between_def)
  moreover have "word_boundary_between ([] @ sk) []"
    using assms by (simp add: word_boundary_between_def)
  ultimately show ?thesis
    unfolding whole_word_occurrence_def by blast
qed

lemma extract_skills_iff:
  "sk \<in> extract_skills data text \<longleftrightarrow> sk \<in> all_skills data \<and> whole_word_occurrence sk text"
  by (auto simp: extract_skills_def re_search_whole_word)

lemma extract_skills_verbatim_word_delimited:
  assumes "sk \<in> all_skills data" "sk \<noteq> []" "is_word_char (hd sk)" "is_word_char (last sk)"
  shows "sk \<in> extract_skills data sk"
  using assms by (simp add: extract_skills_iff whole_word_verbatim)

text \<open>
  C3. A skill of the catalog that begins and ends with a word character is found in the
  text that consists of the skill itself (lemma above). The skill \<open>C++\<close> is not: after
  its last character the text ends, and neither side of that position is a word
  character, so the closing word-boundary assertion fails.
\<close>

theorem extract_skills_misses_cpp:
  "''C++'' \<in> all_skills [game_developer] \<and> ''C++'' \<notin> extract_skills [game_developer] ''C++''"
  by code_simp

text \<open>
  C4. A skill is extracted exactly when it belongs to the vocabulary (the union of the
  required and preferred skills of all roles) and the text contains it as a
  case-insensitive whole-word match, every character of the skill taken literally. With
  the vocabulary \<open>{Python}\<close>, the text \<open>PYTHON\<close> yields \<open>{Python}\<close> and the text
  \<open>Pythonic\<close> yields nothing.
\<close>

theorem extract_skills_iff_whole_word:
  "(sk \<in> extract_skills data text
      \<longleftrightarrow> sk \<in> all_skills data \<and> whole_word_occurrence sk text)
   \<and> all_skills data = (\<Union>r \<in> set data. set (required_skills r) \<union> set (preferred_skills r))
   \<and> all_skills [python_only] = {''Python''}
   \<and> extract_skills [python_only] ''PYTHON'' = {''Python''}
   \<and> extract_skills [python_only] ''Pythonic'' = {}"
proof -
  have v: "all_skills [python_only] = {''Python''}"
    by code_simp
  have u: "extract_skills [python_only] ''PYTHON'' = {''Python''}"
    by code_simp
  have w: "extract_skills [python_only] ''Pythonic'' = {}"
    by code_simp
  from extract_skills_iff all_skills_eq v u w show ?thesis by (intro conjI)
qed

theorem extract_skills_iff_whole_word_witness:
  "''Git'' \<in> extract_skills create_default_career_data ''Used git daily''
   \<and> \<not> whole_word_occurrence ''SQL'' ''Used git daily''"
proof -
  have "''Used git daily'' = ''Used '' @ ''git'' @ '' daily''" by simp
  moreover have "lower ''git'' = lower ''Git''" by code_simp
  moreover have "word_boundary_between ''Used '' (''git'' @ '' daily'')" by code_simp
  moreover have "word_boundary_between (''Used '' @ ''git'') '' daily''" by code_simp
  ultimately have occ: "whole_word_occurrence ''Git'' ''Used git daily''"
    unfolding whole_word_occurrence_def by blast
  have voc: "''Git'' \<in> all_skills create_default_career_data" by code_simp
  have sql: "''SQL'' \<in> all_skills create_default_career_data" by code_simp
  have nsql: "''SQL'' \<notin> extract_skills create_default_career_data ''Used git daily''"
    by code_simp
  have "''Git'' \<in> extract_skills create_default_career_data ''Used git daily''"
    using extract_skills_iff_whole_word [of "''Git''" create_default_career_data "''Used git daily''"]
      occ voc by blast
  moreover have "\<not> whole_word_occurrence ''SQL'' ''Used git daily''"
    using extract_skills_iff_whole_word [of "''SQL''" create_default_career_data "''Used git daily''"]
      sql nsql by blast
  ultimately show ?thesis by (rule conjI)
qed

section \<open>Properties of the career-path recommender\<close>

lemma split_on_not_Nil: "split_on sep cur s \<noteq> []"
  by (induction sep cur s rule: split_on.induct) (subst split_on.simps, simp)

lemma foldl_career_path_step:
  "foldl (career_path_step resume_skills lvl) acc data =
   acc @ map (recommendation_of resume_skills)
           (filter (\<lambda>r. \<not> experience_excludes lvl r \<and> 0 < role_score resume_skills r) data)"
  by (induction data arbitrary: acc) (auto simp: career_path_step_def)

lemma set_sort_reverse: "set (sort_reverse f xs) = set xs"
  by (simp add: sort_reverse_def)

lemma sorted_sort_reverse: "sorted_wrt (\<lambda>a b. f b \<le> f a) (sort_reverse f xs)"
proof -
  have "sorted (map f (sort_key f (rev xs)))" by (rule sorted_sort_key)
  then have "sorted_wrt (\<lambda>a b. f a \<le> f b) (sort_key f (rev xs))"
    by (simp only: sorted_map)
  then show ?thesis
    by (simp only: sort_reverse_def sorted_wrt_rev)
qed

lemma career_path_eq:
  "career_path data resume_skills lvl =
   take 5 (sort_reverse (\<lambda>x. (match_score x, growth x))
     (map (recommendation_of resume_skills)
        (filter (\<lambda>r. \<not> experience_excludes lvl r \<and> 0 < role_score resume_skills r) data)))"
  by (simp add: career_path_def foldl_career_path_step)

lemma career_path_member:
  assumes "e \<in> set (career_path data resume_skills lvl)"
  shows "\<exists>r \<in> set data. e = recommendation_of resume_skills r
           \<and> \<not> experience_excludes lvl r \<and> 0 < role_score resume_skills r"
proof -
  from assms have "e \<in> set (sort_reverse (\<lambda>x. (match_score x, growth x))
     (map (recommendation_of resume_skills)
        (filter (\<lambda>r. \<not> experience_excludes lvl r \<and> 0 < role_score resume_skills r) data)))"
    unfolding career_path_eq by (rule in_set_takeD)
  then show ?thesis
    by (auto simp: set_sort_reverse)
qed

text \<open>
  C8. The recommender returns at most five entries; every entry comes from a role of the
  catalog whose score, the number of distinct required skills among the given skills
  plus half the number of distinct preferred skills among them, is positive, and carries
  that score and the role's current growth (the last demand index, or 100 when there is
  none); the entries are in descending order of (score, growth).
\<close>

theorem career_path_top_five_positive_sorted:
  "length (career_path data resume_skills lvl) \<le> 5
   \<and> (\<forall>e \<in> set (career_path data resume_skills lvl).
        0 < match_score e
        \<and> (\<exists>r \<in> set data.
              rec_role e = role r
              \<and> match_score e
                  = of_nat (card (set (required_skills r) \<inter> set resume_skills))
                    + (1 / 2) * of_nat (card (set (preferred_skills r) \<inter> set resume_skills))
              \<and> growth e
                  = (case demand_index r of
                       None \<Rightarrow> 100
                     | Some xs \<Rightarrow> if xs = [] then 100 else last xs)))
   \<and> sorted_wrt
        (\<lambda>a b. match_score b < match_score a
                \<or> (match_score b = match_score a \<and> growth b \<le> growth a))
        (career_path data resume_skills lvl)"
proof -
  have len: "length (career_path data resume_skills lvl) \<le> 5"
    by (simp add: career_path_def)
  have mem: "0 < match_score e
        \<and> (\<exists>r \<in> set data.
              rec_role e = role r
              \<and> match_score e
                  = of_nat (card (set (required_skills r) \<inter> set resume_skills))
                    + (1 / 2) * of_nat (card (set (preferred_skills r) \<inter> set resume_skills))
              \<and> growth e
                  = (case demand_index r of
                       None \<Rightarrow> 100
                     | Some xs \<Rightarrow> if xs = [] then 100 else last xs))"
    if "e \<in> set (career_path data resume_skills lvl)" for e
  proof -
    from career_path_member [OF that] obtain r where r: "r \<in> set data"
        "e = recommendation_of resume_skills r" "0 < role_score resume_skills r"
      by blast
    from r(2) have "match_score e = role_score resume_skills r" "rec_role e = role r"
        "growth e = current_growth r"
      by (simp_all add: recommendation_of_def)
    with r(1,3) show ?thesis
      by (auto simp: role_score_def current_growth_def Let_def)
  qed
  have "sorted_wrt (\<lambda>a b. (match_score b, growth b) \<le> (match_score a, growth a))
      (career_path data resume_skills lvl)"
    unfolding career_path_eq by (intro sorted_wrt_take sorted_sort_reverse)
  then have srt: "sorted_wrt
        (\<lambda>a b. match_score b < match_score a
                \<or> (match_score b = match_score a \<and> growth b \<le> growth a))
        (career_path data resume_skills lvl)"
    by (rule sorted_wrt_mono_rel [rotated]) (auto simp: less_eq_prod_def)
  from len mem srt show ?thesis by blast
qed


theorem career_path_top_five_positive_sorted_witness:
  "map rec_role (career_path create_default_career_data [''Python'', ''R''] ''Mid'')
     = [''Data Scientist'', ''Software Engineer'']
   \<and> length (career_path create_default_career_data [''Python'', ''R''] ''Mid'') \<le> 5
   \<and> 0 < match_score (hd (career_path create_default_career_data [''Python'', ''R''] ''Mid''))"
proof -
  let ?result = "career_path create_default_career_data [''Python'', ''R''] ''Mid''"
  have names: "map rec_role ?result = [''Data Scientist'', ''Software Engineer'']"
    by code_simp
  then have "?result \<noteq> []" by auto
  then have first: "hd ?result \<in> set ?result" by (rule hd_in_set)
  note facts = career_path_top_five_positive_sorted
    [of create_default_career_data "[''Python'', ''R'']" "''Mid''"]
  from facts have len: "length ?result \<le> 5"
    by (rule conjunct1)
  from facts have "\<forall>e \<in> set ?result. 0 < match_score e"
    by blast
  with first have "0 < match_score (hd ?result)"
    by blast
  with names len show ?thesis by (intro conjI)
qed

lemma list_index_None_iff: "list_index xs x = None \<longleftrightarrow> x \<notin> set xs"
  by (induction xs) auto

lemma level_range_split:
  "\<forall>lo \<in> set level_order. \<forall>hi \<in> set level_order.
     str_split (lo @ '' to '' @ hi) '' to '' = [lo, hi]"
  by code_simp

lemma experience_excludes_unknown_level:
  assumes "lvl \<notin> set level_order"
  shows "\<not> experience_excludes lvl r"
proof -
  from assms have "list_index level_order lvl = None"
    by (rule iffD2 [OF list_index_None_iff])
  then show ?thesis
    by (simp add: experience_excludes_def)
qed

lemma experience_excludes_in_range:
  assumes "list_index level_order lvl = Some e"
    and "list_index level_order (min_level r) = Some lo"
    and "list_index level_order (max_level r) = Some hi"
  shows "\<not> experience_excludes lvl r \<longleftrightarrow> lo \<le> e \<and> e \<le> hi"
  using assms by (auto simp: experience_excludes_def)

text \<open>
  C10. The recommender keeps exactly the roles that the experience filter does not
  exclude and whose score is positive. When the level and both ends of the role's range
  are on the scale Entry, Mid, Senior, Lead, the filter keeps the role exactly when the
  level lies between the two ends. When the level is not on the scale (as \<open>Expert\<close>),
  the filter excludes no role and the recommender depends on the scores alone. A range
  written \<open>a to b\<close> with both on the scale has the ends \<open>a\<close> and \<open>b\<close>.
\<close>

theorem experience_filter_range_or_skipped:
  "career_path data resume_skills lvl =
     take 5 (sort_reverse (\<lambda>x. (match_score x, growth x))
       (map (recommendation_of resume_skills)
          (filter (\<lambda>r. \<not> experience_excludes lvl r \<and> 0 < role_score resume_skills r) data)))
   \<and> (\<forall>e lo hi. list_index level_order lvl = Some e
          \<and> list_index level_order (min_level r) = Some lo
          \<and> list_index level_order (max_level r) = Some hi
        \<longrightarrow> (\<not> experience_excludes lvl r \<longleftrightarrow> lo \<le> e \<and> e \<le> hi))
   \<and> (lvl \<notin> set level_order \<longrightarrow>
        \<not> experience_excludes lvl r
        \<and> career_path data resume_skills lvl =
            take 5 (sort_reverse (\<lambda>x. (match_score x, growth x))
              (map (recommendation_of resume_skills)
                 (filter (\<lambda>r. 0 < role_score resume_skills r) data))))
   \<and> (a \<in> set level_order \<and> b \<in> set level_order
        \<and> experience_level r = Some (a @ '' to '' @ b)
        \<longrightarrow> min_level r = a \<and> max_level r = b)
   \<and> (\<forall>x. list_index level_order x = None \<longleftrightarrow> x \<notin> set level_order)
   \<and> level_order = [''Entry'', ''Mid'', ''Senior'', ''Lead'']
   \<and> ''Expert'' \<notin> set level_order"
proof -
  have range: "\<forall>e lo hi. list_index level_order lvl = Some e
          \<and> list_index level_order (min_level r) = Some lo
          \<and> list_index level_order (max_level r) = Some hi
        \<longrightarrow> (\<not> experience_excludes lvl r \<longleftrightarrow> lo \<le> e \<and> e \<le> hi)"
    using experience_excludes_in_range by blast
  have skipped: "lvl \<notin> set level_order \<longrightarrow>
        \<not> experience_excludes lvl r
        \<and> career_path data resume_skills lvl =
            take 5 (sort_reverse (\<lambda>x. (match_score x, growth x))
              (map (recommendation_of resume_skills)
                 (filter (\<lambda>r. 0 < role_score resume_skills r) data)))"
    by (simp add: career_path_eq experience_excludes_unknown_level)
  have levels: "a \<in> set level_order \<and> b \<in> set level_order
        \<and> experience_level r = Some (a @ '' to '' @ b)
        \<longrightarrow> min_level r = a \<and> max_level r = b"
    using level_range_split by (simp add: min_level_def max_level_def role_levels_def)
  have idx: "\<forall>x. list_index level_order x = None \<longleftrightarrow> x \<notin> set level_order"
    by (simp add: list_index_None_iff)
  have expert: "''Expert'' \<notin> set level_order"
    by code_simp
  from career_path_eq range skipped levels idx level_order_def expert
  show ?thesis by (intro conjI)
qed

theorem experience_filter_range_or_skipped_witness:
  "\<not> experience_excludes ''Mid'' default_software_engineer
   \<and> experience_excludes ''Lead'' default_software_engineer
   \<and> \<not> experience_excludes ''Expert'' default_software_engineer"
proof -
  note range = experience_filter_range_or_skipped
    [THEN conjunct2, THEN conjunct1, rule_format]
  note skipped = experience_filter_range_or_skipped
    [THEN conjunct2, THEN conjunct2, THEN conjunct1, rule_format]
  note levels = experience_filter_range_or_skipped
    [THEN conjunct2, THEN conjunct2, THEN conjunct2, THEN conjunct1, rule_format]
  have lv: "''Entry'' \<in> set level_order \<and> ''Senior'' \<in> set level_order
      \<and> experience_level default_software_engineer = Some (''Entry'' @ '' to '' @ ''Senior'')"
    by code_simp
  from levels [OF lv]
  have mm: "min_level default_software_engineer = ''Entry''"
      "max_level default_software_engineer = ''Senior''"
    by simp_all
  have i0: "list_index level_order ''Entry'' = Some 0" by code_simp
  have i1: "list_index level_order ''Mid'' = Some 1" by code_simp
  have i2: "list_index level_order ''Senior'' = Some 2" by code_simp
  have i3: "list_index level_order ''Lead'' = Some 3" by code_simp
  have ex: "''Expert'' \<notin> set level_order" by code_simp
  have "list_index level_order ''Mid'' = Some 1
      \<and> list_index level_order (min_level default_software_engineer) = Some 0
      \<and> list_index level_order (max_level default_software_engineer) = Some 2"
    using i0 i1 i2 mm by simp
  from range [OF this]
  have mid: "\<not> experience_excludes ''Mid'' default_software_engineer"
    by simp
  have "list_index level_order ''Lead'' = Some 3
      \<and> list_index level_order (min_level default_software_engineer) = Some 0
      \<and> list_index level_order (max_level default_software_engineer) = Some 2"
    using i0 i3 i2 mm by simp
  from range [OF this]
  have lead: "experience_excludes ''Lead'' default_software_engineer"
    by simp
  from skipped [OF ex]
  have expert: "\<not> experience_excludes ''Expert'' default_software_engineer"
    by (rule conjunct1)
  from mid lead expert show ?thesis by (intro conjI)
qed

end
